theory Spec2Isabelle
  imports Main "HOL-Library.Sublist"
begin

section \<open>Strings of the runtime\<close>

text \<open>
  A JavaScript string is a sequence of UTF-16 code units. The literals of the services are
  Russian text, so a string is modelled as the list of its code units (every letter of the
  literals is one unit); \<open>ascii\<close> embeds the ASCII literals. A value that may be
  \<open>undefined\<close> or \<open>null\<close> is an \<open>option\<close>, with \<open>None\<close> for the missing value.
\<close>

type_synonym jsstring = "nat list"

definition ascii :: "string \<Rightarrow> jsstring" where
  "ascii s = map of_char s"

text \<open>\<open>s.includes(k)\<close>: \<open>k\<close> occurs in \<open>s\<close> as a contiguous run.\<close>

fun str_includes :: "jsstring \<Rightarrow> jsstring \<Rightarrow> bool" where
  "str_includes [] k = (k = [])"
| "str_includes (c # cs) k = (prefix k (c # cs) \<or> str_includes cs k)"

text \<open>\<open>parts.join(sep)\<close> on an array of strings.\<close>

fun join :: "jsstring \<Rightarrow> jsstring list \<Rightarrow> jsstring" where
  "join sep [] = []"
| "join sep [x] = x"
| "join sep (x # y # ys) = x @ sep @ join sep (y # ys)"

text \<open>
  \<open>Array.prototype.join\<close> renders an element that is \<open>undefined\<close> or \<open>null\<close> as the
  empty string; a template literal renders \<open>undefined\<close> as the text "undefined" and
  \<open>null\<close> as the text "null".
\<close>

definition join_text :: "jsstring option \<Rightarrow> jsstring" where
  "join_text v = (case v of None \<Rightarrow> [] | Some s \<Rightarrow> s)"

definition template_undefined :: "jsstring option \<Rightarrow> jsstring" where
  "template_undefined v = (case v of None \<Rightarrow> ascii ''undefined'' | Some s \<Rightarrow> s)"

definition template_null :: "jsstring option \<Rightarrow> jsstring" where
  "template_null v = (case v of None \<Rightarrow> ascii ''null'' | Some s \<Rightarrow> s)"

text \<open>The decimal digits of a number, as a template literal prints \<open>index + 1\<close>.\<close>

fun decimal :: "nat \<Rightarrow> jsstring" where
  "decimal n = (if n < 10 then [48 + n] else decimal (n div 10) @ [48 + n mod 10])"

declare decimal.simps [simp del]

text \<open>\<open>xs.slice(-n)\<close> and \<open>xs.slice(0, -n)\<close> for \<open>n > 0\<close>: a start or end before the
  beginning of the array is clamped to 0, which is what the subtraction on \<open>nat\<close> does.\<close>

definition slice_last :: "nat \<Rightarrow> 'a list \<Rightarrow> 'a list" where
  "slice_last n xs = drop (length xs - n) xs"

definition slice_front :: "nat \<Rightarrow> 'a list \<Rightarrow> 'a list" where
  "slice_front n xs = take (length xs - n) xs"

section \<open>Literals of ClaudeService\<close>

text \<open>The sentence returned for an empty history (in English: the session has only just begun).\<close>

definition summary_placeholder :: jsstring where
  "summary_placeholder =
     [1057, 1077, 1089, 1089, 1080, 1103, 32, 1090, 1086, 1083, 1100, 1082, 1086, 32, 1085,
     1072, 1095, 1072, 1083, 1072, 1089, 1100, 46]"

text \<open>The head of a segment sentence (the word for segment and a space).\<close>

definition segment_label :: jsstring where
  "segment_label =
     [1057, 1077, 1075, 1084, 1077, 1085, 1090, 32]"

text \<open>The middle of a segment sentence: full stop, space, the words for emotional state, colon, space.\<close>

definition emotional_state_label :: jsstring where
  "emotional_state_label =
     [46, 32, 1069, 1084, 1086, 1094, 1080, 1086, 1085, 1072, 1083, 1100, 1085, 1086, 1077, 32,
     1089, 1086, 1089, 1090, 1086, 1103, 1085, 1080, 1077, 58, 32]"

text \<open>The head of the themes phrase (themes discussed, colon, space).\<close>

definition themes_found_label :: jsstring where
  "themes_found_label =
     [1086, 1073, 1089, 1091, 1078, 1076, 1072, 1083, 1080, 1089, 1100, 32, 1090, 1077, 1084,
     1099, 58, 32]"

text \<open>The themes phrase when no theme matches (various personal matters were discussed).\<close>

definition themes_default :: jsstring where
  "themes_default =
     [1086, 1073, 1089, 1091, 1078, 1076, 1072, 1083, 1080, 1089, 1100, 32, 1088, 1072, 1079,
     1083, 1080, 1095, 1085, 1099, 1077, 32, 1083, 1080, 1095, 1085, 1099, 1077, 32, 1074,
     1086, 1087, 1088, 1086, 1089, 1099]"

text \<open>The emotion reported for an empty list of patient messages (neutral).\<close>

definition emotion_neutral :: jsstring where
  "emotion_neutral =
     [1085, 1077, 1081, 1090, 1088, 1072, 1083, 1100, 1085, 1086, 1077]"

text \<open>The emotion reported when the loop over the table finds no match (mixed).\<close>

definition emotion_mixed :: jsstring where
  "emotion_mixed =
     [1089, 1084, 1077, 1096, 1072, 1085, 1085, 1086, 1077]"

text \<open>The label of a turn whose role is user (therapist).\<close>

definition label_therapist :: jsstring where
  "label_therapist =
     [1058, 1077, 1088, 1072, 1087, 1077, 1074, 1090]"

text \<open>The label of every other turn (patient).\<close>

definition label_patient :: jsstring where
  "label_patient =
     [1055, 1072, 1094, 1080, 1077, 1085, 1090]"

text \<open>The object literal themes of extractKeyThemes, as its entries in insertion order. Rows in order: work and stress; relationships; emotions; health; personal growth.\<close>

definition themes_table :: "(jsstring \<times> jsstring list) list" where
  "themes_table =
     [([1088, 1072, 1073, 1086, 1090, 1072, 32, 1080, 32, 1089, 1090, 1088, 1077, 1089, 1089],
        [[1088, 1072, 1073, 1086, 1090, 1072], [1089, 1090, 1088, 1077, 1089, 1089], [1082,
        1086, 1083, 1083, 1077, 1075, 1080], [1085, 1072, 1095, 1072, 1083, 1100, 1085, 1080,
        1082], [1087, 1088, 1086, 1077, 1082, 1090], [1076, 1077, 1076, 1083, 1072, 1081,
        1085]]),
      ([1086, 1090, 1085, 1086, 1096, 1077, 1085, 1080, 1103],
        [[1089, 1077, 1084, 1100, 1103], [1087, 1072, 1088, 1090, 1085, 1077, 1088], [1076,
        1088, 1091, 1079, 1100, 1103], [1086, 1090, 1085, 1086, 1096, 1077, 1085, 1080, 1103],
        [1083, 1102, 1073, 1086, 1074, 1100], [1082, 1086, 1085, 1092, 1083, 1080, 1082, 1090]]),
      ([1101, 1084, 1086, 1094, 1080, 1080],
        [[1090, 1088, 1077, 1074, 1086, 1075, 1072], [1076, 1077, 1087, 1088, 1077, 1089, 1089,
        1080, 1103], [1079, 1083, 1086, 1089, 1090, 1100], [1089, 1090, 1088, 1072, 1093],
        [1088, 1072, 1076, 1086, 1089, 1090, 1100], [1075, 1088, 1091, 1089, 1090, 1100]]),
      ([1079, 1076, 1086, 1088, 1086, 1074, 1100, 1077],
        [[1089, 1086, 1085], [1091, 1089, 1090, 1072, 1083, 1086, 1089, 1090, 1100], [1073,
        1086, 1083, 1077, 1079, 1085, 1100], [1083, 1077, 1095, 1077, 1085, 1080, 1077], [1074,
        1088, 1072, 1095]]),
      ([1083, 1080, 1095, 1085, 1086, 1089, 1090, 1085, 1086, 1077, 32, 1088, 1072, 1079, 1074,
       1080, 1090, 1080, 1077],
        [[1094, 1077, 1083, 1080], [1084, 1077, 1095, 1090, 1099], [1087, 1083, 1072, 1085,
        1099], [1088, 1072, 1079, 1074, 1080, 1090, 1080, 1077], [1091, 1089, 1087, 1077,
        1093], [1085, 1077, 1091, 1076, 1072, 1095, 1072]])]"

text \<open>The object literal emotions of extractEmotions, as its entries in insertion order. Rows in order: anxious; sad; angry; positive; tired.\<close>

definition emotions_table :: "(jsstring \<times> jsstring list) list" where
  "emotions_table =
     [([1090, 1088, 1077, 1074, 1086, 1078, 1085, 1086, 1077],
        [[1073, 1077, 1089, 1087, 1086, 1082, 1086, 1102, 1089, 1100], [1090, 1088, 1077, 1074,
        1086, 1078, 1085, 1086], [1089, 1090, 1088, 1072, 1096, 1085, 1086], [1074, 1086, 1083,
        1085, 1091, 1102, 1089, 1100], [1085, 1077, 1088, 1074, 1085, 1080, 1095, 1072, 1102]]),
      ([1075, 1088, 1091, 1089, 1090, 1085, 1086, 1077],
        [[1075, 1088, 1091, 1089, 1090, 1085, 1086], [1087, 1077, 1095, 1072, 1083, 1100, 1085,
        1086], [1088, 1072, 1089, 1089, 1090, 1088, 1086, 1077, 1085], [1076, 1077, 1087, 1088,
        1077, 1089, 1089, 1080, 1103], [1087, 1083, 1086, 1093, 1086]]),
      ([1079, 1083, 1086, 1077],
        [[1079, 1083, 1102, 1089, 1100], [1073, 1077, 1089, 1080, 1090], [1088, 1072, 1079,
        1076, 1088, 1072, 1078, 1072, 1077, 1090], [1085, 1077, 1085, 1072, 1074, 1080, 1078,
        1091], [1075, 1085, 1077, 1074]]),
      ([1087, 1086, 1079, 1080, 1090, 1080, 1074, 1085, 1086, 1077],
        [[1093, 1086, 1088, 1086, 1096, 1086], [1088, 1072, 1076, 1091, 1102, 1089, 1100],
        [1089, 1095, 1072, 1089, 1090, 1083, 1080, 1074], [1086, 1090, 1083, 1080, 1095, 1085,
        1086], [1079, 1076, 1086, 1088, 1086, 1074, 1086]]),
      ([1091, 1089, 1090, 1072, 1083, 1086, 1077],
        [[1091, 1089, 1090, 1072, 1083], [1074, 1099, 1084, 1072, 1090, 1099, 1074, 1072, 1077,
        1090], [1080, 1079, 1084, 1086, 1090, 1072, 1085], [1085, 1077, 1090, 32, 1089, 1080,
        1083]])]"

text \<open>The new-week context before the history: a heading (previous session, a week ago) and a line feed.\<close>

definition new_week_head :: jsstring where
  "new_week_head =
     [1055, 1056, 1054, 1064, 1051, 1040, 1071, 32, 1057, 1045, 1057, 1057, 1048, 1071, 32, 40,
     1085, 1077, 1076, 1077, 1083, 1102, 32, 1085, 1072, 1079, 1072, 1076, 41, 58, 10]"

text \<open>The new-week context after the history: two line feeds, a heading (new meeting) and the instruction paragraph.\<close>

definition new_week_tail :: jsstring where
  "new_week_tail =
     [10, 10, 1053, 1054, 1042, 1040, 1071, 32, 1042, 1057, 1058, 1056, 1045, 1063, 1040, 58,
     10, 1055, 1088, 1086, 1096, 1083, 1072, 32, 1085, 1077, 1076, 1077, 1083, 1103, 32, 1087,
     1086, 1089, 1083, 1077, 32, 1087, 1088, 1077, 1076, 1099, 1076, 1091, 1097, 1077, 1081,
     32, 1089, 1077, 1089, 1089, 1080, 1080, 46, 32, 1053, 1072, 1095, 1080, 1085, 1072, 1081,
     1090, 1077, 32, 1082, 1072, 1082, 32, 1077, 1089, 1083, 1080, 32, 1073, 1099, 32, 1087,
     1088, 1080, 1096, 1083, 1080, 32, 1085, 1072, 32, 1085, 1086, 1074, 1091, 1102, 32, 1074,
     1089, 1090, 1088, 1077, 1095, 1091, 44, 32, 1087, 1086, 1084, 1085, 1103, 32, 1095, 1090,
     1086, 32, 1087, 1088, 1086, 1080, 1079, 1086, 1096, 1083, 1086, 32, 1085, 1072, 32, 1087,
     1088, 1086, 1096, 1083, 1086, 1081, 32, 1089, 1077, 1089, 1089, 1080, 1080, 46, 32, 1052,
     1086, 1078, 1077, 1090, 1077, 32, 1091, 1087, 1086, 1084, 1103, 1085, 1091, 1090, 1100,
     32, 1082, 1072, 1082, 32, 1087, 1088, 1086, 1096, 1083, 1072, 32, 1085, 1077, 1076, 1077,
     1083, 1103, 44, 32, 1095, 1090, 1086, 32, 1080, 1079, 1084, 1077, 1085, 1080, 1083, 1086,
     1089, 1100, 44, 32, 1082, 1072, 1082, 1080, 1077, 32, 1084, 1099, 1089, 1083, 1080, 32,
     1073, 1099, 1083, 1080, 32, 1087, 1086, 1089, 1083, 1077, 32, 1087, 1088, 1086, 1096,
     1083, 1086, 1081, 32, 1074, 1089, 1090, 1088, 1077, 1095, 1080, 46]"

text \<open>The same-session context before the history: a heading (previous context of the session) and a line feed.\<close>

definition same_session_head :: jsstring where
  "same_session_head =
     [1055, 1056, 1045, 1044, 1067, 1044, 1059, 1065, 1048, 1049, 32, 1050, 1054, 1053, 1058,
     1045, 1050, 1057, 1058, 32, 1057, 1045, 1057, 1057, 1048, 1048, 58, 10]"

text \<open>The same-session context after the history: two line feeds and a heading (the current dialogue continues).\<close>

definition same_session_tail :: jsstring where
  "same_session_tail =
     [10, 10, 1058, 1045, 1050, 1059, 1065, 1048, 1049, 32, 1044, 1048, 1040, 1051, 1054, 1043,
     32, 1055, 1056, 1054, 1044, 1054, 1051, 1046, 1040, 1045, 1058, 1057, 1071, 58]"

section \<open>Data model of the request builder\<close>

text \<open>
  A turn is an object read through its properties \<open>role\<close> and \<open>content\<close> (a missing
  property reads as \<open>undefined\<close>); \<open>cache_control\<close> records whether the object has a
  property of that name. The objects the builder creates have \<open>role\<close> and \<open>content\<close> only.
\<close>

record turn =
  role :: "jsstring option"
  content :: "jsstring option"
  cache_control :: bool

text \<open>The element of \<open>system\<close>: \<open>{type: 'text', text, cache_control?}\<close>.\<close>

record system_segment =
  seg_text :: jsstring
  seg_cache_control :: bool

text \<open>The returned object: \<open>system\<close> is absent or an array of one segment.\<close>

record payload =
  system :: "system_segment option"
  messages :: "turn list"

record options =
  isNewWeek :: bool

datatype js_error = TypeError | ValidationError

section \<open>TokenEstimator: calculateTokens\<close>

text \<open>
  \<open>getTokenCount\<close> is imported from the tokenizer package: \<open>None\<close> when it is not a
  function, otherwise a counter that returns a count or throws (\<open>None\<close>); a throw is caught
  and the estimate of one token for four code units is used.
\<close>

type_synonym tokenizer = "(jsstring \<Rightarrow> nat option) option"

definition calculateTokens :: "tokenizer \<Rightarrow> jsstring option \<Rightarrow> nat" where
  "calculateTokens getTokenCount text =
     (case text of
        None \<Rightarrow> 0
      | Some s \<Rightarrow>
          if s = [] then 0
          else (case getTokenCount of
                  None \<Rightarrow> (length s + 3) div 4
                | Some count \<Rightarrow>
                    (case count s of Some n \<Rightarrow> n | None \<Rightarrow> (length s + 3) div 4)))"

section \<open>HistorySummarizer\<close>

text \<open>\<open>String.prototype.toLowerCase\<close> belongs to the runtime; it is the parameter
  \<open>lower\<close> of every function that calls it.\<close>

text \<open>The loop of extractKeyThemes over \<open>Object.entries(themes)\<close>, pushing every theme
  one of whose keywords the content includes.\<close>

fun found_themes :: "jsstring \<Rightarrow> (jsstring \<times> jsstring list) list \<Rightarrow> jsstring list" where
  "found_themes text [] = []"
| "found_themes text ((theme, keywords) # rest) =
     (if list_ex (\<lambda>keyword. str_includes text keyword) keywords
      then theme # found_themes text rest
      else found_themes text rest)"

definition extractKeyThemes :: "(jsstring \<Rightarrow> jsstring) \<Rightarrow> turn list \<Rightarrow> jsstring" where
  "extractKeyThemes lower msgs =
     (let text = lower (join (ascii '' '') (map (\<lambda>m. join_text (content m)) msgs));
          foundThemes = found_themes text themes_table
      in if length foundThemes > 0
         then themes_found_label @ join (ascii '', '') foundThemes
         else themes_default)"

text \<open>The loop of extractEmotions over \<open>Object.entries(emotions)\<close>, returning at the
  first emotion one of whose keywords the content includes; \<open>None\<close> when the loop ends.\<close>

fun first_emotion :: "jsstring \<Rightarrow> (jsstring \<times> jsstring list) list \<Rightarrow> jsstring option" where
  "first_emotion text [] = None"
| "first_emotion text ((emotion, keywords) # rest) =
     (if list_ex (\<lambda>keyword. str_includes text keyword) keywords
      then Some emotion
      else first_emotion text rest)"

definition extractEmotions :: "(jsstring \<Rightarrow> jsstring) \<Rightarrow> turn list \<Rightarrow> jsstring" where
  "extractEmotions lower patientMessages =
     (if patientMessages = [] then emotion_neutral
      else (let text = lower (join (ascii '' '') (map (\<lambda>m. join_text (content m)) patientMessages))
            in case first_emotion text emotions_table of
                 Some emotion \<Rightarrow> emotion
               | None \<Rightarrow> emotion_mixed))"

text \<open>
  The grouping loop of summarizeConversationHistory: \<open>cur\<close> is \<open>currentSegment\<close>,
  \<open>segs\<close> is \<open>segments\<close>, the first argument is the messages from index \<open>i\<close> on, and
  \<open>i === messages.length - 1\<close> holds exactly when no message follows.
\<close>

fun segment_loop :: "'a list \<Rightarrow> 'a list \<Rightarrow> 'a list list \<Rightarrow> 'a list list" where
  "segment_loop [] cur segs = segs"
| "segment_loop (m # rest) cur segs =
     (let cur' = cur @ [m]
      in if length cur' \<ge> 8 \<or> rest = []
         then segment_loop rest [] (segs @ [cur'])
         else segment_loop rest cur' segs)"

definition segments_of :: "'a list \<Rightarrow> 'a list list" where
  "segments_of msgs = segment_loop msgs [] []"

text \<open>
  The grouping in the words of the specification, for comparison with the loop: the turns
  are cut into consecutive chunks of up to \<open>n\<close>, in order.
\<close>

function spec_chunks :: "nat \<Rightarrow> 'a list \<Rightarrow> 'a list list" where
  "spec_chunks n xs = (if xs = [] \<or> n = 0 then [] else take n xs # spec_chunks n (drop n xs))"
  by pat_completeness auto
termination
  by (relation "measure (\<lambda>(n, xs). length xs)") auto

declare spec_chunks.simps [simp del]

text \<open>The callback of \<open>segments.map\<close>: the sentence of the segment at \<open>index\<close>.\<close>

definition segment_summary :: "(jsstring \<Rightarrow> jsstring) \<Rightarrow> nat \<Rightarrow> turn list \<Rightarrow> jsstring" where
  "segment_summary lower index segment =
     (let patientMessages = filter (\<lambda>m. role m = Some (ascii ''assistant'')) segment;
          themes = extractKeyThemes lower segment;
          emotions = extractEmotions lower patientMessages
      in segment_label @ decimal (index + 1) @ ascii '': '' @ themes
         @ emotional_state_label @ emotions @ ascii ''.'')"

definition summaries_of :: "(jsstring \<Rightarrow> jsstring) \<Rightarrow> turn list \<Rightarrow> jsstring list" where
  "summaries_of lower msgs =
     map (\<lambda>(index, segment). segment_summary lower index segment)
         (enumerate 0 (segments_of msgs))"

definition summarizeConversationHistory ::
  "(jsstring \<Rightarrow> jsstring) \<Rightarrow> turn list option \<Rightarrow> jsstring" where
  "summarizeConversationHistory lower arg =
     (case arg of
        None \<Rightarrow> summary_placeholder
      | Some msgs \<Rightarrow>
          if length msgs = 0 then summary_placeholder
          else join (ascii '' '') (summaries_of lower msgs))"

section \<open>CachePlanner and ContextAssembler\<close>

definition determineStrategy :: "nat \<Rightarrow> nat \<Rightarrow> string" where
  "determineStrategy messageCount systemTokens =
     (if messageCount \<le> 10
      then (if systemTokens \<ge> 800 then ''system_cache'' else ''no_cache'')
      else ''sliding_window'')"

text \<open>The callback \<open>msg => ({role: msg.role, content: msg.content})\<close>.\<close>

definition plain :: "turn \<Rightarrow> turn" where
  "plain msg = \<lparr>role = role msg, content = content msg, cache_control = False\<rparr>"

text \<open>The system prompt is a string or \<open>null\<close> (the default of sendMessage); the empty
  string and \<open>null\<close> are falsy.\<close>

definition buildSimpleSystemCache :: "turn list \<Rightarrow> jsstring option \<Rightarrow> nat \<Rightarrow> payload" where
  "buildSimpleSystemCache msgs systemPrompt systemTokens =
     (case systemPrompt of
        Some s \<Rightarrow>
          if s \<noteq> [] \<and> systemTokens \<ge> 800
          then \<lparr>system = Some \<lparr>seg_text = s, seg_cache_control = True\<rparr>,
                messages = map plain msgs\<rparr>
          else if s \<noteq> []
          then \<lparr>system = Some \<lparr>seg_text = s, seg_cache_control = False\<rparr>,
                messages = map plain msgs\<rparr>
          else \<lparr>system = None, messages = map plain msgs\<rparr>
      | None \<Rightarrow> \<lparr>system = None, messages = map plain msgs\<rparr>)"

text \<open>The verbatim rendering of the older turns, one labelled line per turn.\<close>

definition literal_history :: "turn list \<Rightarrow> jsstring" where
  "literal_history oldMessages =
     join (ascii ''\<newline>'')
       (map (\<lambda>msg. (if role msg = Some (ascii ''user'') then label_therapist else label_patient)
                    @ ascii '': '' @ template_undefined (content msg))
            oldMessages)"

definition sessionContext :: "options \<Rightarrow> jsstring \<Rightarrow> jsstring" where
  "sessionContext opts conversationHistory =
     (if isNewWeek opts
      then new_week_head @ conversationHistory @ new_week_tail
      else same_session_head @ conversationHistory @ same_session_tail)"

definition enhancedSystemPrompt :: "jsstring option \<Rightarrow> options \<Rightarrow> jsstring \<Rightarrow> jsstring" where
  "enhancedSystemPrompt systemPrompt opts conversationHistory =
     template_null systemPrompt @ ascii ''\<newline>\<newline>'' @ sessionContext opts conversationHistory"

definition buildSlidingWindowCache ::
  "(jsstring \<Rightarrow> jsstring) \<Rightarrow> turn list \<Rightarrow> jsstring option \<Rightarrow> options \<Rightarrow> payload" where
  "buildSlidingWindowCache lower msgs systemPrompt opts =
     (let recentCount = 6;
          recentMessages = slice_last recentCount msgs;
          oldMessages = slice_front recentCount msgs;
          conversationHistory =
            (if length msgs \<ge> 30
             then summarizeConversationHistory lower (Some oldMessages)
             else literal_history oldMessages)
      in \<lparr>system = Some \<lparr>seg_text = enhancedSystemPrompt systemPrompt opts conversationHistory,
                          seg_cache_control = True\<rparr>,
          messages = map plain recentMessages\<rparr>)"

text \<open>
  The builder reads \<open>messages.length\<close> first: on \<open>null\<close> or \<open>undefined\<close> (\<open>None\<close>)
  that read throws a TypeError. Nothing in the builder inspects the shape of a turn.
\<close>

definition buildMessagesWithCache ::
  "tokenizer \<Rightarrow> (jsstring \<Rightarrow> jsstring) \<Rightarrow> turn list option \<Rightarrow> jsstring option \<Rightarrow> options
   \<Rightarrow> js_error + payload" where
  "buildMessagesWithCache getTokenCount lower arg systemPrompt opts =
     (case arg of
        None \<Rightarrow> Inl TypeError
      | Some msgs \<Rightarrow>
          (let systemTokens = calculateTokens getTokenCount systemPrompt;
               messageCount = length msgs
           in if messageCount \<le> 10
              then Inr (buildSimpleSystemCache msgs systemPrompt systemTokens)
              else Inr (buildSlidingWindowCache lower msgs systemPrompt opts)))"

section \<open>RateLimiter: ClaudeService.checkRateLimit\<close>

text \<open>
  \<open>this.rateLimiter\<close> is a Map from user id to the array of admitted timestamps;
  \<open>Date.now()\<close> is the parameter \<open>now\<close>, and \<open>windowMs\<close>, \<open>maxRequests\<close> are
  \<open>config.security.rateLimit\<close>. The function returns the verdict and the Map after the call.
\<close>

type_synonym 'u rate_state = "'u \<rightharpoonup> int list"

definition checkRateLimit ::
  "int \<Rightarrow> nat \<Rightarrow> int \<Rightarrow> 'u \<Rightarrow> 'u rate_state \<Rightarrow> bool \<times> 'u rate_state" where
  "checkRateLimit windowMs maxRequests now userId rl =
     (let userRequests = (case rl userId of None \<Rightarrow> [] | Some ts \<Rightarrow> ts);
          validRequests = filter (\<lambda>timestamp. now - timestamp < windowMs) userRequests
      in if length validRequests \<ge> maxRequests then (False, rl)
         else (True, rl(userId \<mapsto> validRequests @ [now])))"

text \<open>A run of admission checks at the given times, for one user: verdicts and final Map.\<close>

fun checkRateLimit_seq ::
  "int \<Rightarrow> nat \<Rightarrow> 'u \<Rightarrow> int list \<Rightarrow> 'u rate_state \<Rightarrow> bool list \<times> 'u rate_state" where
  "checkRateLimit_seq windowMs maxRequests userId [] rl = ([], rl)"
| "checkRateLimit_seq windowMs maxRequests userId (now # nows) rl =
     (case checkRateLimit windowMs maxRequests now userId rl of
        (ok, rl') \<Rightarrow>
          (case checkRateLimit_seq windowMs maxRequests userId nows rl' of
             (oks, rl'') \<Rightarrow> (ok # oks, rl'')))"

section \<open>SessionService: inactivity timers\<close>

text \<open>
  The runtime keeps the pending timeouts; \<open>setTimeout\<close> returns a fresh handle and
  \<open>clearTimeout\<close> removes the timeout with the given handle (and does nothing when the
  argument is \<open>undefined\<close>). A timeout is recorded with the callback it will run:
  handleInactivityWarning for the warning and the pause timer, handleInactivityEnd for the
  end timer.
\<close>

datatype timer_kind = WarningTimer | EndTimer | PauseTimer

record timeout =
  handle :: nat
  for_session :: string
  for_user :: nat
  kind :: timer_kind
  due :: int

text \<open>The object stored in \<open>inactivityTimers\<close>: \<open>{warningTimer, endTimer}\<close> or
  \<open>{pauseTimer}\<close>; reading a property the object lacks gives \<open>undefined\<close>.\<close>

datatype timer_entry = Monitoring nat nat | Paused nat

fun warningTimer :: "timer_entry \<Rightarrow> nat option" where
  "warningTimer (Monitoring w e) = Some w"
| "warningTimer (Paused p) = None"

fun endTimer :: "timer_entry \<Rightarrow> nat option" where
  "endTimer (Monitoring w e) = Some e"
| "endTimer (Paused p) = None"

record session =
  userId :: nat
  startTime :: int
  lastActivity :: int

record service =
  activeSessions :: "string \<rightharpoonup> session"
  inactivityTimers :: "string \<rightharpoonup> timer_entry"
  inactivityWarnings :: "string \<rightharpoonup> int"
  INACTIVITY_WARNING_TIME :: int
  INACTIVITY_END_TIME :: int
  timeouts :: "timeout list"
  next_handle :: nat

definition setTimeout ::
  "int \<Rightarrow> timer_kind \<Rightarrow> string \<Rightarrow> nat \<Rightarrow> int \<Rightarrow> service \<Rightarrow> nat \<times> service" where
  "setTimeout now k sessionUuid user delay s =
     (next_handle s,
      s\<lparr>timeouts := timeouts s @
           [\<lparr>handle = next_handle s, for_session = sessionUuid, for_user = user,
             kind = k, due = now + delay\<rparr>],
        next_handle := Suc (next_handle s)\<rparr>)"

definition clearTimeout :: "nat option \<Rightarrow> service \<Rightarrow> service" where
  "clearTimeout h s =
     (case h of
        None \<Rightarrow> s
      | Some i \<Rightarrow> s\<lparr>timeouts := filter (\<lambda>t. handle t \<noteq> i) (timeouts s)\<rparr>)"

definition clearInactivityTimer :: "string \<Rightarrow> service \<Rightarrow> service" where
  "clearInactivityTimer sessionUuid s =
     (case inactivityTimers s sessionUuid of
        None \<Rightarrow> s
      | Some timers \<Rightarrow>
          (let s1 = clearTimeout (warningTimer timers) s;
               s2 = clearTimeout (endTimer timers) s1
           in s2\<lparr>inactivityTimers := (inactivityTimers s2)(sessionUuid := None)\<rparr>))"

definition clearInactivityWarning :: "string \<Rightarrow> service \<Rightarrow> service" where
  "clearInactivityWarning sessionUuid s =
     s\<lparr>inactivityWarnings := (inactivityWarnings s)(sessionUuid := None)\<rparr>"

definition startInactivityMonitoring :: "int \<Rightarrow> string \<Rightarrow> nat \<Rightarrow> service \<Rightarrow> service" where
  "startInactivityMonitoring now sessionUuid user s =
     (let s0 = clearInactivityTimer sessionUuid s;
          (w, s1) = setTimeout now WarningTimer sessionUuid user (INACTIVITY_WARNING_TIME s0) s0;
          (e, s2) = setTimeout now EndTimer sessionUuid user (INACTIVITY_END_TIME s1) s1
      in s2\<lparr>inactivityTimers := (inactivityTimers s2)(sessionUuid \<mapsto> Monitoring w e)\<rparr>)"

definition resetInactivityTimer :: "int \<Rightarrow> string \<Rightarrow> nat \<Rightarrow> service \<Rightarrow> service" where
  "resetInactivityTimer now sessionUuid user s =
     startInactivityMonitoring now sessionUuid user
       (clearInactivityWarning sessionUuid (clearInactivityTimer sessionUuid s))"

definition handleContinueSession :: "int \<Rightarrow> string \<Rightarrow> service \<Rightarrow> bool \<times> service" where
  "handleContinueSession now sessionUuid s =
     (case activeSessions s sessionUuid of
        Some sess \<Rightarrow>
          (let s1 = s\<lparr>activeSessions :=
                        (activeSessions s)(sessionUuid \<mapsto> sess\<lparr>lastActivity := now\<rparr>)\<rparr>;
               s2 = resetInactivityTimer now sessionUuid (userId sess) s1
           in (True, clearInactivityWarning sessionUuid s2))
      | None \<Rightarrow> (False, s))"

definition handlePauseSession :: "int \<Rightarrow> string \<Rightarrow> int \<Rightarrow> service \<Rightarrow> bool \<times> service" where
  "handlePauseSession now sessionUuid pauseDuration s =
     (case activeSessions s sessionUuid of
        Some sess \<Rightarrow>
          (let s1 = s\<lparr>activeSessions :=
                        (activeSessions s)(sessionUuid \<mapsto> sess\<lparr>lastActivity := now\<rparr>)\<rparr>;
               s2 = clearInactivityTimer sessionUuid s1;
               s3 = clearInactivityWarning sessionUuid s2;
               (p, s4) = setTimeout now PauseTimer sessionUuid (userId sess) pauseDuration s3
           in (True, s4\<lparr>inactivityTimers := (inactivityTimers s4)(sessionUuid \<mapsto> Paused p)\<rparr>))
      | None \<Rightarrow> (False, s))"

text \<open>
  The in-memory part of createSession, after its checks and its database insert: the session
  is entered in \<open>activeSessions\<close> and monitoring starts.
\<close>

definition createSession_state :: "int \<Rightarrow> string \<Rightarrow> nat \<Rightarrow> service \<Rightarrow> service" where
  "createSession_state now sessionUuid user s =
     startInactivityMonitoring now sessionUuid user
       (s\<lparr>activeSessions :=
            (activeSessions s)(sessionUuid \<mapsto>
               \<lparr>userId = user, startTime = now, lastActivity = now\<rparr>)\<rparr>)"

text \<open>The service as constructed: empty Maps, five and ten minutes, no pending timeout.\<close>

definition new_service :: service where
  "new_service =
     \<lparr>activeSessions = Map.empty, inactivityTimers = Map.empty, inactivityWarnings = Map.empty,
      INACTIVITY_WARNING_TIME = 5 * 60 * 1000, INACTIVITY_END_TIME = 10 * 60 * 1000,
      timeouts = [], next_handle = 0\<rparr>"

text \<open>The timeouts still pending whose callback is closed over the given session.\<close>

definition pending_for :: "string \<Rightarrow> service \<Rightarrow> timeout list" where
  "pending_for sessionUuid s = filter (\<lambda>t. for_session t = sessionUuid) (timeouts s)"

section \<open>Persistent transcript store\<close>

text \<open>
  The table conversation_history, as the list of its rows in insertion order, with the
  columns the load reads. \<open>JSON.parse\<close> gives back what \<open>JSON.stringify\<close> was given for
  arrays of such turns, so the column \<open>messages\<close> holds the turns themselves;
  \<open>created_at\<close> is an ISO-8601 instant, whose order as text is the order of the instants,
  held here in milliseconds. \<open>db_ok\<close> tells whether the database call succeeds: a failure
  is caught and logged by both functions.
\<close>

record history_row =
  row_session :: string
  row_messages :: "turn list"
  row_response :: jsstring
  row_created_at :: int

definition saveConversationToDB ::
  "bool \<Rightarrow> int \<Rightarrow> string \<Rightarrow> turn list \<Rightarrow> jsstring \<Rightarrow> history_row list \<Rightarrow> history_row list" where
  "saveConversationToDB db_ok now sessionId msgs response_content tbl =
     (if db_ok
      then tbl @ [\<lparr>row_session = sessionId, row_messages = msgs,
                    row_response = response_content, row_created_at = now\<rparr>]
      else tbl)"

text \<open>
  \<open>ORDER BY created_at DESC LIMIT ?\<close>: the rows of the session, latest first, at most
  \<open>limit\<close> of them (rows with equal \<open>created_at\<close> come in an order SQL leaves open; the
  sort used here keeps them in insertion order).
\<close>

definition select_history :: "string \<Rightarrow> nat \<Rightarrow> history_row list \<Rightarrow> history_row list" where
  "select_history sessionId limit tbl =
     take limit (sort_key (\<lambda>r. - row_created_at r) (filter (\<lambda>r. row_session r = sessionId) tbl))"

definition loadConversationFromDB ::
  "bool \<Rightarrow> string \<Rightarrow> nat \<Rightarrow> history_row list \<Rightarrow> turn list" where
  "loadConversationFromDB db_ok sessionId limit tbl =
     (if db_ok
      then concat (map (\<lambda>conv. row_messages conv @
                          [\<lparr>role = Some (ascii ''assistant''),
                            content = Some (row_response conv), cache_control = False\<rparr>])
                       (rev (select_history sessionId limit tbl)))
      else [])"

text \<open>
  One append of a turn pair to the store: the therapist's turn and the reply to it, saved
  for a session at a time. A run of appends, all succeeding, is a fold over the table.
\<close>

record turn_pair =
  pair_session :: string
  pair_time :: int
  pair_turn :: turn
  pair_reply :: jsstring

definition append_pair :: "history_row list \<Rightarrow> turn_pair \<Rightarrow> history_row list" where
  "append_pair tbl p =
     saveConversationToDB True (pair_time p) (pair_session p) [pair_turn p] (pair_reply p) tbl"

text \<open>The row that one append inserts.\<close>

definition row_of :: "turn_pair \<Rightarrow> history_row" where
  "row_of p = \<lparr>row_session = pair_session p, row_messages = [pair_turn p],
               row_response = pair_reply p, row_created_at = pair_time p\<rparr>"

definition append_all :: "turn_pair list \<Rightarrow> history_row list \<Rightarrow> history_row list" where
  "append_all ps tbl = foldl append_pair tbl ps"

definition pair_turns :: "turn_pair \<Rightarrow> turn list" where
  "pair_turns p =
     [pair_turn p,
      \<lparr>role = Some (ascii ''assistant''), content = Some (pair_reply p), cache_control = False\<rparr>]"

section \<open>Sample data\<close>

text \<open>A turn with the given role and content that also carries a \<open>cache_control\<close>
  property, used where a property is run on a concrete input.\<close>

definition said :: "string \<Rightarrow> string \<Rightarrow> turn" where
  "said r c = \<lparr>role = Some (ascii r), content = Some (ascii c), cache_control = True\<rparr>"

text \<open>A patient turn whose content holds the first keyword of the fourth row of the
  emotions table, a space, and the fifth keyword of the second row.\<close>

definition mood :: turn where
  "mood = \<lparr>role = Some (ascii ''assistant''),
       content = Some (snd (emotions_table ! 3) ! 0 @ ascii '' '' @ snd (emotions_table ! 1) ! 4),
       cache_control = False\<rparr>"

text \<open>The \<open>i\<close>-th turn pair of a session, appended at time \<open>i\<close>, and a row of another
  session.\<close>

definition sample_pair :: "string \<Rightarrow> nat \<Rightarrow> turn_pair" where
  "sample_pair sid i =
     \<lparr>pair_session = sid, pair_time = int i,
      pair_turn = \<lparr>role = Some (ascii ''user''), content = Some (decimal i),
                   cache_control = False\<rparr>,
      pair_reply = decimal i\<rparr>"

definition other_row :: history_row where
  "other_row = \<lparr>row_session = ''t'', row_messages = [said ''user'' ''x''],
                 row_response = ascii ''y'', row_created_at = 5\<rparr>"

section \<open>Properties of the request builder\<close>

text \<open>A prompt estimated at 800 tokens or more is a non-empty string.\<close>

lemma tokens_ge_800: "800 \<le> calculateTokens tok sp \<Longrightarrow> \<exists>s. sp = Some s \<and> s \<noteq> []"
  by (cases sp) (auto simp: calculateTokens_def split: if_splits)

lemma build_simple_cached:
  assumes "length msgs \<le> 10" and "800 \<le> calculateTokens tok sp"
  shows "\<exists>s. sp = Some s \<and>
           buildMessagesWithCache tok lower (Some msgs) sp opts =
             Inr \<lparr>system = Some \<lparr>seg_text = s, seg_cache_control = True\<rparr>,
                  messages = map plain msgs\<rparr>"
proof -
  from assms(2) obtain s where "sp = Some s" "s \<noteq> []"
    using tokens_ge_800 by blast
  with assms show ?thesis
    by (simp add: buildMessagesWithCache_def buildSimpleSystemCache_def)
qed

lemma build_simple_uncached:
  assumes "length msgs \<le> 10" and "calculateTokens tok sp < 800"
  shows "buildMessagesWithCache tok lower (Some msgs) sp opts =
           Inr \<lparr>system = (case sp of
                             None \<Rightarrow> None
                           | Some s \<Rightarrow> if s = [] then None
                                       else Some \<lparr>seg_text = s, seg_cache_control = False\<rparr>),
                messages = map plain msgs\<rparr>"
  using assms
  by (cases sp) (simp_all add: buildMessagesWithCache_def buildSimpleSystemCache_def)

lemma build_sliding_literal:
  assumes "10 < length msgs" and "length msgs < 30"
  shows "buildMessagesWithCache tok lower (Some msgs) sp opts =
           Inr \<lparr>system = Some \<lparr>seg_text = enhancedSystemPrompt sp opts
                                              (literal_history (slice_front 6 msgs)),
                                 seg_cache_control = True\<rparr>,
                messages = map plain (slice_last 6 msgs)\<rparr>"
  using assms by (simp add: buildMessagesWithCache_def buildSlidingWindowCache_def)

lemma build_sliding_summarized:
  assumes "30 \<le> length msgs"
  shows "buildMessagesWithCache tok lower (Some msgs) sp opts =
           Inr \<lparr>system = Some \<lparr>seg_text = enhancedSystemPrompt sp opts
                                              (summarizeConversationHistory lower
                                                 (Some (slice_front 6 msgs))),
                                 seg_cache_control = True\<rparr>,
                messages = map plain (slice_last 6 msgs)\<rparr>"
  using assms by (simp add: buildMessagesWithCache_def buildSlidingWindowCache_def)

text \<open>
  C1. The payload of the request builder is fixed by messageCount (the length of the
  transcript) and systemTokens (the estimate of the system prompt): at most 10 messages and at
  least 800 tokens give the simple payload with the prompt as a cacheable segment; at most
  10 messages and fewer than 800 tokens give the simple payload with no cache annotation
  (the prompt uncached, or no segment when the prompt is empty or null); more than 10 and
  fewer than 30 messages give the sliding window over the literal rendering of the older
  turns; 30 or more give the sliding window over their summary. Exactly one of the four
  conditions holds.
\<close>

theorem strategy_selection:
  "(length msgs \<le> 10 \<and> 800 \<le> calculateTokens tok sp \<longrightarrow>
      (\<exists>s. sp = Some s \<and>
         buildMessagesWithCache tok lower (Some msgs) sp opts =
           Inr \<lparr>system = Some \<lparr>seg_text = s, seg_cache_control = True\<rparr>,
                messages = map plain msgs\<rparr>)) \<and>
   (length msgs \<le> 10 \<and> calculateTokens tok sp < 800 \<longrightarrow>
      buildMessagesWithCache tok lower (Some msgs) sp opts =
        Inr \<lparr>system = (case sp of
                          None \<Rightarrow> None
                        | Some s \<Rightarrow> if s = [] then None
                                    else Some \<lparr>seg_text = s, seg_cache_control = False\<rparr>),
             messages = map plain msgs\<rparr>) \<and>
   (10 < length msgs \<and> length msgs < 30 \<longrightarrow>
      buildMessagesWithCache tok lower (Some msgs) sp opts =
        Inr \<lparr>system = Some \<lparr>seg_text = enhancedSystemPrompt sp opts
                                           (literal_history (slice_front 6 msgs)),
                              seg_cache_control = True\<rparr>,
             messages = map plain (slice_last 6 msgs)\<rparr>) \<and>
   (30 \<le> length msgs \<longrightarrow>
      buildMessagesWithCache tok lower (Some msgs) sp opts =
        Inr \<lparr>system = Some \<lparr>seg_text = enhancedSystemPrompt sp opts
                                           (summarizeConversationHistory lower
                                              (Some (slice_front 6 msgs))),
                              seg_cache_control = True\<rparr>,
             messages = map plain (slice_last 6 msgs)\<rparr>) \<and>
   length (filter id
     [length msgs \<le> 10 \<and> 800 \<le> calculateTokens tok sp,
      length msgs \<le> 10 \<and> calculateTokens tok sp < 800,
      10 < length msgs \<and> length msgs < 30,
      30 \<le> length msgs]) = 1"
proof (intro conjI impI)
  show "length (filter id
     [length msgs \<le> 10 \<and> 800 \<le> calculateTokens tok sp,
      length msgs \<le> 10 \<and> calculateTokens tok sp < 800,
      10 < length msgs \<and> length msgs < 30,
      30 \<le> length msgs]) = 1"
    by auto
qed (blast intro: build_simple_cached build_simple_uncached build_sliding_literal
       build_sliding_summarized)+


theorem strategy_selection_witness:
  "buildMessagesWithCache (Some (\<lambda>s. Some 900)) id (Some (replicate 2 (said ''user'' ''hi'')))
      (Some (ascii ''P'')) \<lparr>isNewWeek = False\<rparr>
    = Inr \<lparr>system = Some \<lparr>seg_text = ascii ''P'', seg_cache_control = True\<rparr>,
           messages = replicate 2 (plain (said ''user'' ''hi''))\<rparr> \<and>
   buildMessagesWithCache None id (Some (replicate 2 (said ''user'' ''hi'')))
      (Some (ascii ''P'')) \<lparr>isNewWeek = False\<rparr>
    = Inr \<lparr>system = Some \<lparr>seg_text = ascii ''P'', seg_cache_control = False\<rparr>,
           messages = replicate 2 (plain (said ''user'' ''hi''))\<rparr> \<and>
   buildMessagesWithCache None id (Some (replicate 11 (said ''user'' ''hi'')))
      (Some (ascii ''P'')) \<lparr>isNewWeek = False\<rparr>
    = Inr \<lparr>system = Some \<lparr>seg_text = enhancedSystemPrompt (Some (ascii ''P''))
                  \<lparr>isNewWeek = False\<rparr>
                  (literal_history (replicate 5 (said ''user'' ''hi''))),
               seg_cache_control = True\<rparr>,
           messages = replicate 6 (plain (said ''user'' ''hi''))\<rparr> \<and>
   buildMessagesWithCache None id (Some (replicate 30 (said ''user'' ''hi'')))
      (Some (ascii ''P'')) \<lparr>isNewWeek = True\<rparr>
    = Inr \<lparr>system = Some \<lparr>seg_text = enhancedSystemPrompt (Some (ascii ''P''))
                  \<lparr>isNewWeek = True\<rparr>
                  (summarizeConversationHistory id (Some (replicate 24 (said ''user'' ''hi'')))),
               seg_cache_control = True\<rparr>,
           messages = replicate 6 (plain (said ''user'' ''hi''))\<rparr>"
  using strategy_selection [of "replicate 2 (said ''user'' ''hi'')" "Some (\<lambda>s. Some 900)"
           "Some (ascii ''P'')" id "\<lparr>isNewWeek = False\<rparr>"]
        strategy_selection [of "replicate 2 (said ''user'' ''hi'')" None "Some (ascii ''P'')" id
           "\<lparr>isNewWeek = False\<rparr>"]
        strategy_selection [of "replicate 11 (said ''user'' ''hi'')" None "Some (ascii ''P'')" id
           "\<lparr>isNewWeek = False\<rparr>"]
        strategy_selection [of "replicate 30 (said ''user'' ''hi'')" None "Some (ascii ''P'')" id
           "\<lparr>isNewWeek = True\<rparr>"]
  by (simp add: calculateTokens_def ascii_def slice_front_def slice_last_def)


text \<open>On an array the builder always returns a payload, whose messages are the copies of
  all turns (at most 10 turns) or of the last six.\<close>

lemma build_returns:
  "\<exists>p. buildMessagesWithCache tok lower (Some msgs) sp opts = Inr p"
  by (simp add: buildMessagesWithCache_def)

lemma build_messages:
  "buildMessagesWithCache tok lower arg sp opts = Inr p \<Longrightarrow>
     \<exists>msgs. arg = Some msgs \<and>
       messages p = map plain (if length msgs \<le> 10 then msgs else slice_last 6 msgs)"
  by (cases arg; cases sp)
     (auto simp: buildMessagesWithCache_def buildSimpleSystemCache_def
        buildSlidingWindowCache_def Let_def split: if_splits)

lemma role_plain: "role (plain m) = role m"
  by (simp add: plain_def)

lemma content_plain: "content (plain m) = content m"
  by (simp add: plain_def)

text \<open>
  C2. When a window strategy is in effect (more than 10 messages), the messages of the
  payload are min(6, messageCount) many and carry the roles and contents of the most recent
  turns of the transcript, in their order; under the simple strategy they carry the roles
  and contents of the whole transcript.
\<close>

theorem recent_turns_window:
  "(10 < length msgs \<longrightarrow>
      (\<exists>p. buildMessagesWithCache tok lower (Some msgs) sp opts = Inr p \<and>
           length (messages p) = min 6 (length msgs) \<and>
           map role (messages p) = map role (drop (length msgs - 6) msgs) \<and>
           map content (messages p) = map content (drop (length msgs - 6) msgs))) \<and>
   (length msgs \<le> 10 \<longrightarrow>
      (\<exists>p. buildMessagesWithCache tok lower (Some msgs) sp opts = Inr p \<and>
           map role (messages p) = map role msgs \<and>
           map content (messages p) = map content msgs))"
proof -
  obtain p where p: "buildMessagesWithCache tok lower (Some msgs) sp opts = Inr p"
    using build_returns by blast
  from build_messages [OF p]
  have m: "messages p = map plain (if length msgs \<le> 10 then msgs else slice_last 6 msgs)"
    by simp
  show ?thesis
  proof (intro conjI impI)
    assume "10 < length msgs"
    with m have "messages p = map plain (drop (length msgs - 6) msgs)"
      by (simp add: slice_last_def)
    with p show "\<exists>p. buildMessagesWithCache tok lower (Some msgs) sp opts = Inr p \<and>
           length (messages p) = min 6 (length msgs) \<and>
           map role (messages p) = map role (drop (length msgs - 6) msgs) \<and>
           map content (messages p) = map content (drop (length msgs - 6) msgs)"
      using \<open>10 < length msgs\<close> by (auto simp: role_plain content_plain)
  next
    assume "length msgs \<le> 10"
    with m have "messages p = map plain msgs"
      by simp
    with p show "\<exists>p. buildMessagesWithCache tok lower (Some msgs) sp opts = Inr p \<and>
           map role (messages p) = map role msgs \<and>
           map content (messages p) = map content msgs"
      by (auto simp: role_plain content_plain)
  qed
qed


theorem recent_turns_window_witness:
  "(\<exists>p. buildMessagesWithCache None id
          (Some (replicate 6 (said ''user'' ''old'') @ replicate 6 (said ''assistant'' ''new'')))
          None \<lparr>isNewWeek = False\<rparr> = Inr p \<and>
        length (messages p) = 6 \<and>
        map content (messages p) = replicate 6 (Some (ascii ''new''))) \<and>
   (\<exists>p. buildMessagesWithCache None id (Some [said ''user'' ''a'', said ''assistant'' ''b''])
          None \<lparr>isNewWeek = False\<rparr> = Inr p \<and>
        map content (messages p) = [Some (ascii ''a''), Some (ascii ''b'')])"
  using recent_turns_window
          [of "replicate 6 (said ''user'' ''old'') @ replicate 6 (said ''assistant'' ''new'')"
              None id None "\<lparr>isNewWeek = False\<rparr>"]
        recent_turns_window
          [of "[said ''user'' ''a'', said ''assistant'' ''b'']"
              None id None "\<lparr>isNewWeek = False\<rparr>"]
  by (auto simp: said_def)

text \<open>
  C3. No element of the messages of a returned payload has a \<open>cache_control\<close> property,
  whatever the turns given carried; the only place of a cache annotation in a payload is
  its system segment, of which there is at most one.
\<close>

theorem no_cache_control_on_messages:
  "buildMessagesWithCache tok lower arg sp opts = Inr p \<Longrightarrow>
     list_all (\<lambda>m. \<not> cache_control m) (messages p)"
  by (auto dest!: build_messages simp: plain_def list_all_iff)

theorem no_cache_control_on_messages_witness:
  "cache_control (said ''user'' ''a'') \<and>
   list_all (\<lambda>m. \<not> cache_control m)
     (messages (projr (buildMessagesWithCache None id (Some (replicate 12 (said ''user'' ''a'')))
        None \<lparr>isNewWeek = False\<rparr>)))"
proof -
  obtain p where p: "buildMessagesWithCache None id (Some (replicate 12 (said ''user'' ''a'')))
        None \<lparr>isNewWeek = False\<rparr> = Inr p"
    using build_returns by blast
  from no_cache_control_on_messages [OF p] p show ?thesis
    by (simp add: said_def)
qed

text \<open>
  C8, as stated, fails: a \<open>null\<close> transcript makes the builder throw a TypeError, not a
  ValidationError, and a turn without role and content (but with another property) is
  accepted, copied with both fields undefined and the other property dropped.
\<close>

theorem malformed_input_counterexample:
  "buildMessagesWithCache None id None None \<lparr>isNewWeek = False\<rparr> = Inl TypeError \<and>
   buildMessagesWithCache None id
      (Some [\<lparr>role = None, content = None, cache_control = True\<rparr>]) None \<lparr>isNewWeek = False\<rparr>
     = Inr \<lparr>system = None,
            messages = [\<lparr>role = None, content = None, cache_control = False\<rparr>]\<rparr>"
  by (simp add: buildMessagesWithCache_def buildSimpleSystemCache_def calculateTokens_def
        plain_def)

text \<open>
  C8, amended. The request builder validates nothing and never raises a ValidationError: on
  a \<open>null\<close> or \<open>undefined\<close> transcript it throws a TypeError, and on every array of
  turn objects it returns a payload whose messages copy the role and content of each
  retained turn as they are read (undefined when missing) and nothing else.
\<close>

theorem builder_does_not_validate:
  "buildMessagesWithCache tok lower arg sp opts \<noteq> Inl ValidationError \<and>
   buildMessagesWithCache tok lower None sp opts = Inl TypeError \<and>
   (\<exists>p. buildMessagesWithCache tok lower (Some msgs) sp opts = Inr p \<and>
        messages p = map plain (if length msgs \<le> 10 then msgs else slice_last 6 msgs))"
proof -
  obtain p where p: "buildMessagesWithCache tok lower (Some msgs) sp opts = Inr p"
    using build_returns by blast
  from build_messages [OF p] p
  have "\<exists>p. buildMessagesWithCache tok lower (Some msgs) sp opts = Inr p \<and>
        messages p = map plain (if length msgs \<le> 10 then msgs else slice_last 6 msgs)"
    by simp
  moreover have "buildMessagesWithCache tok lower arg sp opts \<noteq> Inl ValidationError"
    by (cases arg) (simp_all add: buildMessagesWithCache_def)
  moreover have "buildMessagesWithCache tok lower None sp opts = Inl TypeError"
    by (simp add: buildMessagesWithCache_def)
  ultimately show ?thesis
    by blast
qed

section \<open>Properties of the history summarizer\<close>

text \<open>The grouping loop computes the chunks of up to 8 of the specification.\<close>

lemma spec_chunks_Nil: "spec_chunks n [] = []"
  by (simp add: spec_chunks.simps)

lemma segment_loop_chunks:
  "length cur < 8 \<Longrightarrow> (xs = [] \<longrightarrow> cur = []) \<Longrightarrow>
     segment_loop xs cur segs = segs @ spec_chunks 8 (cur @ xs)"
proof (induction xs arbitrary: cur segs)
  case Nil
  then show ?case by (simp add: spec_chunks_Nil)
next
  case (Cons x rest)
  let ?cur = "cur @ [x]"
  show ?case
  proof (cases "length ?cur \<ge> 8")
    case True
    with Cons.prems have len: "length ?cur = 8" by simp
    have "segment_loop (x # rest) cur segs = segment_loop rest [] (segs @ [?cur])"
      using True by simp
    also have "\<dots> = (segs @ [?cur]) @ spec_chunks 8 ([] @ rest)"
      by (rule Cons.IH) simp_all
    also have "\<dots> = segs @ spec_chunks 8 (?cur @ rest)"
      using len by (subst (2) spec_chunks.simps) simp
    finally show ?thesis by simp
  next
    case short: False
    show ?thesis
    proof (cases "rest = []")
      case True
      with short show ?thesis
        by (simp add: spec_chunks.simps [of 8 "cur @ [x]"] spec_chunks_Nil)
    next
      case False
      with short have "segment_loop (x # rest) cur segs = segment_loop rest ?cur segs"
        by simp
      also have "\<dots> = segs @ spec_chunks 8 (?cur @ rest)"
        using short False by (intro Cons.IH) simp_all
      finally show ?thesis by simp
    qed
  qed
qed

lemma segments_of_chunks: "segments_of msgs = spec_chunks 8 msgs"
  using segment_loop_chunks [of "[]" msgs "[]"] by (simp add: segments_of_def)

lemma spec_chunks_step:
  "xs \<noteq> [] \<Longrightarrow> 0 < n \<Longrightarrow> spec_chunks n xs = take n xs # spec_chunks n (drop n xs)"
  by (subst spec_chunks.simps) simp

lemma ceil8_step: "0 < (n::nat) \<Longrightarrow> Suc ((n - 8 + 7) div 8) = (n + 7) div 8"
proof (cases "n < 8")
  case True
  assume "0 < n"
  with True have "(n + 7) div 8 = 1" by presburger
  with True show ?thesis by simp
next
  case False
  then obtain m where "n = m + 8" by (metis add.commute le_Suc_ex not_less)
  then show ?thesis by simp
qed

lemma length_spec_chunks_8: "length (spec_chunks 8 xs) = (length xs + 7) div 8"
proof (induction "length xs" arbitrary: xs rule: less_induct)
  case less
  show ?case
  proof (cases "xs = []")
    case True
    then show ?thesis by (simp add: spec_chunks_Nil)
  next
    case False
    then have pos: "0 < length xs" by simp
    from False have "length (drop 8 xs) < length xs" by simp
    from less [OF this]
    have "length (spec_chunks 8 (drop 8 xs)) = (length xs - 8 + 7) div 8" by simp
    with False have "length (spec_chunks 8 xs) = Suc ((length xs - 8 + 7) div 8)"
      by (simp add: spec_chunks_step)
    also from pos have "\<dots> = (length xs + 7) div 8" by (rule ceil8_step)
    finally show ?thesis .
  qed
qed

lemma concat_spec_chunks: "0 < n \<Longrightarrow> concat (spec_chunks n xs) = xs"
proof (induction n xs rule: spec_chunks.induct)
  case (1 n xs)
  then show ?case
    by (cases "xs = []") (simp_all add: spec_chunks_Nil spec_chunks_step)
qed

lemma spec_chunks_sizes:
  "c \<in> set (spec_chunks n xs) \<Longrightarrow> c \<noteq> [] \<and> length c \<le> n"
proof (induction n xs arbitrary: c rule: spec_chunks.induct)
  case (1 n xs)
  show ?case
  proof (cases "xs = [] \<or> n = 0")
    case True
    with "1.prems" show ?thesis by (simp add: spec_chunks.simps)
  next
    case False
    with "1.prems" have "c = take n xs \<or> c \<in> set (spec_chunks n (drop n xs))"
      by (simp add: spec_chunks_step)
    then show ?thesis
    proof
      assume "c = take n xs"
      with False show ?thesis by simp
    next
      assume "c \<in> set (spec_chunks n (drop n xs))"
      with False show ?thesis by (intro "1.IH") simp_all
    qed
  qed
qed

lemma segment_summary_nonempty: "segment_summary lower i seg \<noteq> []"
  by (simp add: segment_summary_def segment_label_def)

lemma length_summaries_of: "length (summaries_of lower msgs) = length (segments_of msgs)"
  by (simp add: summaries_of_def)

lemma summaries_of_nonempty: "s \<in> set (summaries_of lower msgs) \<Longrightarrow> s \<noteq> []"
  by (auto simp: summaries_of_def segment_summary_nonempty)


text \<open>
  C5. The summary of an absent or empty run of turns is the placeholder sentence. The
  summary of N >= 1 turns is the join, with a space as separator, of one sentence per
  segment, the segments being the consecutive chunks of up to 8 turns in order (each
  non-empty, together the whole run): ceil(N/8) sentences, each non-empty.
\<close>

theorem summary_segments:
  "summarizeConversationHistory lower None = summary_placeholder \<and>
   summarizeConversationHistory lower (Some []) = summary_placeholder \<and>
   (msgs \<noteq> [] \<longrightarrow>
      summarizeConversationHistory lower (Some msgs)
        = join (ascii '' '') (summaries_of lower msgs) \<and>
      summaries_of lower msgs =
        map (\<lambda>(index, segment). segment_summary lower index segment)
            (enumerate 0 (spec_chunks 8 msgs)) \<and>
      length (summaries_of lower msgs) = (length msgs + 7) div 8 \<and>
      (\<forall>s \<in> set (summaries_of lower msgs). s \<noteq> []) \<and>
      concat (spec_chunks 8 msgs) = msgs \<and>
      (\<forall>c \<in> set (spec_chunks 8 msgs). c \<noteq> [] \<and> length c \<le> 8))"
proof (intro conjI impI ballI)
  show "summarizeConversationHistory lower None = summary_placeholder"
    by (simp add: summarizeConversationHistory_def)
  show "summarizeConversationHistory lower (Some []) = summary_placeholder"
    by (simp add: summarizeConversationHistory_def)
next
  assume "msgs \<noteq> []"
  then show "summarizeConversationHistory lower (Some msgs)
               = join (ascii '' '') (summaries_of lower msgs)"
    by (simp add: summarizeConversationHistory_def)
next
  show "summaries_of lower msgs =
        map (\<lambda>(index, segment). segment_summary lower index segment)
            (enumerate 0 (spec_chunks 8 msgs))"
    by (simp only: summaries_of_def segments_of_chunks)
next
  show "length (summaries_of lower msgs) = (length msgs + 7) div 8"
    by (simp only: length_summaries_of segments_of_chunks length_spec_chunks_8)
next
  fix s assume "s \<in> set (summaries_of lower msgs)"
  then show "s \<noteq> []" by (rule summaries_of_nonempty)
next
  show "concat (spec_chunks 8 msgs) = msgs"
    by (rule concat_spec_chunks) simp
next
  fix c assume c: "c \<in> set (spec_chunks 8 msgs)"
  from spec_chunks_sizes [OF c] show "c \<noteq> []" by simp
  from spec_chunks_sizes [OF c] show "length c \<le> 8" by simp
qed


theorem summary_segments_witness:
  "replicate 9 (said ''user'' ''a'') \<noteq> [] \<and>
   spec_chunks 8 (replicate 9 (said ''user'' ''a''))
     = [replicate 8 (said ''user'' ''a''), [said ''user'' ''a'']] \<and>
   length (summaries_of id (replicate 9 (said ''user'' ''a''))) = 2 \<and>
   summaries_of id (replicate 9 (said ''user'' ''a''))
     = [segment_summary id 0 (replicate 8 (said ''user'' ''a'')),
        segment_summary id 1 [said ''user'' ''a'']] \<and>
   summarizeConversationHistory id (Some (replicate 9 (said ''user'' ''a'')))
     = segment_summary id 0 (replicate 8 (said ''user'' ''a'')) @ ascii '' '' @
       segment_summary id 1 [said ''user'' ''a'']"
proof -
  have chunks: "spec_chunks 8 (replicate 9 (said ''user'' ''a''))
     = [replicate 8 (said ''user'' ''a''), [said ''user'' ''a'']]"
    by (simp add: spec_chunks_step spec_chunks_Nil)
  with summary_segments [of id "replicate 9 (said ''user'' ''a'')"] show ?thesis
    by (simp add: enumerate_eq_zip upt_rec)
qed

text \<open>\<open>includes\<close> is the test for a contiguous sublist, and the loop over the emotions
  table returns the name of the first row with a matching keyword.\<close>

lemma str_includes_sublist: "str_includes s k \<longleftrightarrow> sublist k s"
  by (induction s) (simp_all add: sublist_Cons_right)

lemma first_emotion_find:
  "first_emotion text tbl =
     map_option fst (find (\<lambda>(emotion, keywords). \<exists>k \<in> set keywords. sublist k text) tbl)"
  by (induction tbl) (auto simp: list_ex_iff str_includes_sublist)

text \<open>
  C6, amended. The emotional state in a segment's sentence is computed from the segment's
  assistant-role turns only. When there is at least one such turn, it is the name of the
  first row of the emotions table one of whose keywords occurs in the lower-cased,
  space-joined contents of those turns, and "mixed" when no row matches; when the segment
  has no assistant-role turn, it is "neutral".
\<close>

theorem segment_emotion:
  "segment_summary lower index segment =
     segment_label @ decimal (index + 1) @ ascii '': '' @ extractKeyThemes lower segment
     @ emotional_state_label
     @ extractEmotions lower (filter (\<lambda>m. role m = Some (ascii ''assistant'')) segment)
     @ ascii ''.'' \<and>
   (pm = [] \<longrightarrow> extractEmotions lower pm = emotion_neutral) \<and>
   (pm \<noteq> [] \<longrightarrow>
      extractEmotions lower pm =
        (case find (\<lambda>(emotion, keywords). \<exists>k \<in> set keywords.
                      sublist k (lower (join (ascii '' '') (map (\<lambda>m. join_text (content m)) pm))))
                   emotions_table of
           Some (emotion, keywords) \<Rightarrow> emotion
         | None \<Rightarrow> emotion_mixed))"
  by (auto simp: segment_summary_def extractEmotions_def first_emotion_find
        split: option.splits)

theorem segment_emotion_witness:
  "extractEmotions id [] = emotion_neutral \<and>
   [mood] \<noteq> [] \<and>
   (case find (\<lambda>(emotion, keywords). \<exists>k \<in> set keywords.
                 sublist k (id (join (ascii '' '') (map (\<lambda>m. join_text (content m)) [mood]))))
              emotions_table of
      Some (emotion, keywords) \<Rightarrow> emotion
    | None \<Rightarrow> emotion_mixed) = fst (emotions_table ! 1)"
proof -
  have run: "extractEmotions id [mood] = fst (emotions_table ! 1)"
    by code_simp
  have nonempty: "[mood] \<noteq> []"
    by simp
  from segment_emotion [of id 0 "[]" "[]"] segment_emotion [of id 0 "[]" "[mood]"] run nonempty
  show ?thesis
    by simp
qed

text \<open>
  C6, as stated, fails on a segment with no assistant-role turn: no row of the table
  matches the (empty) concatenation of the assistant turns, yet the sentence reports
  "neutral", not "mixed".
\<close>

theorem emotion_default_counterexample:
  "segment_summary id 0
     [\<lparr>role = Some (ascii ''user''), content = Some (ascii ''hi''), cache_control = False\<rparr>]
     = segment_label @ ascii ''1: '' @ themes_default @ emotional_state_label
       @ emotion_neutral @ ascii ''.'' \<and>
   first_emotion [] emotions_table = None \<and>
   emotion_neutral \<noteq> emotion_mixed"
  by code_simp

section \<open>Properties of the rate limiter\<close>

text \<open>
  C7. With windowMs = 60000 and maxRequests = 5, a user with no recorded requests is admitted
  at t, t+1, t+2, t+3, t+4, rejected at t+5 and admitted again at t+60001; after the last
  call the stored list holds the three timestamps still inside the window and the new one.
\<close>

theorem rate_limit_scenario:
  assumes "rl u = None"
  shows "checkRateLimit_seq 60000 5 u [t, t + 1, t + 2, t + 3, t + 4, t + 5, t + 60001] rl
         = ([True, True, True, True, True, False, True],
            rl(u \<mapsto> [t + 2, t + 3, t + 4, t + 60001]))"
  using assms by (simp add: checkRateLimit_def)

theorem rate_limit_scenario_witness:
  "(Map.empty :: nat rate_state) 7 = None \<and>
   fst (checkRateLimit_seq 60000 5 (7::nat) [1000, 1001, 1002, 1003, 1004, 1005, 61001] Map.empty)
     = [True, True, True, True, True, False, True]"
  using rate_limit_scenario [of Map.empty "7::nat" 1000] by simp

text \<open>
  C10. A rejected admission check returns the Map it was given: nothing is recorded and
  the pruned list is not stored.
\<close>

theorem rate_limit_reject_unchanged:
  "checkRateLimit windowMs maxRequests now u rl = (False, rl') \<Longrightarrow> rl' = rl"
  by (simp add: checkRateLimit_def Let_def split: if_splits)

theorem rate_limit_reject_unchanged_witness:
  "fst (checkRateLimit 60000 2 100 (1::nat) [1 \<mapsto> [0, 50, 99]]) = False \<and>
   snd (checkRateLimit 60000 2 100 (1::nat) [1 \<mapsto> [0, 50, 99]]) = [1 \<mapsto> [0, 50, 99]]"
proof -
  let ?r = "checkRateLimit 60000 2 100 (1::nat) [1 \<mapsto> [0, 50, 99]]"
  have rejected: "fst ?r = False"
    by (simp add: checkRateLimit_def)
  then have "?r = (False, snd ?r)"
    by (cases ?r) simp
  from rate_limit_reject_unchanged [OF this] rejected show ?thesis
    by simp
qed

section \<open>The inactivity timers of a paused session\<close>

text \<open>
  C4 requires every operation that arms timers to cancel the pending ones first, a pending
  pause timer included. The code at a concrete run: creating a session arms the warning and
  the end timer; pausing cancels both and arms the pause timer; but continuing (or pausing
  again) after a pause leaves the pause timer pending next to the newly armed timers, since
  clearInactivityTimer clears only the handles \<open>warningTimer\<close> and \<open>endTimer\<close> of
  the stored object.
\<close>

theorem pause_timer_not_cancelled:
  "map kind (pending_for ''s'' (createSession_state 0 ''s'' 1 new_service))
     = [WarningTimer, EndTimer] \<and>
   map kind (pending_for ''s''
       (snd (handlePauseSession 1000 ''s'' 900000 (createSession_state 0 ''s'' 1 new_service))))
     = [PauseTimer] \<and>
   map kind (pending_for ''s''
       (snd (handleContinueSession 2000 ''s''
          (snd (handlePauseSession 1000 ''s'' 900000
             (createSession_state 0 ''s'' 1 new_service))))))
     = [PauseTimer, WarningTimer, EndTimer] \<and>
   map kind (pending_for ''s''
       (snd (handlePauseSession 2000 ''s'' 900000
          (snd (handlePauseSession 1000 ''s'' 900000
             (createSession_state 0 ''s'' 1 new_service))))))
     = [PauseTimer, PauseTimer]"
  by (simp add: pending_for_def handleContinueSession_def handlePauseSession_def
        createSession_state_def new_service_def resetInactivityTimer_def
        startInactivityMonitoring_def clearInactivityTimer_def clearInactivityWarning_def
        setTimeout_def clearTimeout_def)

section \<open>Properties of the transcript store\<close>

text \<open>A run of appends adds its rows at the end of the table, in order.\<close>

lemma append_all_rows: "append_all ps tbl = tbl @ map row_of ps"
  by (induction ps arbitrary: tbl)
     (simp_all add: append_all_def append_pair_def saveConversationToDB_def row_of_def)

text \<open>Rows whose \<open>created_at\<close> strictly increases come out of the descending sort
  reversed.\<close>

lemma insort_key_last:
  "\<forall>y \<in> set ys. g y < g x \<Longrightarrow> insort_key g x ys = ys @ [x]"
  by (induction ys) auto

lemma sort_desc_rev:
  fixes f :: "'a \<Rightarrow> int"
  shows "sorted_wrt (<) (map f xs) \<Longrightarrow> sort_key (\<lambda>x. - f x) xs = rev xs"
proof (induction xs)
  case Nil
  then show ?case by simp
next
  case (Cons x xs)
  then have "sort_key (\<lambda>x. - f x) xs = rev xs" and later: "\<forall>y \<in> set xs. f x < f y"
    by simp_all
  then show ?case
    by (simp add: insort_key_last)
qed

lemma filter_rows:
  "filter (\<lambda>r. row_session r = sid) (map row_of ps)
     = map row_of (filter (\<lambda>p. pair_session p = sid) ps)"
  by (induction ps) (simp_all add: row_of_def)

lemma select_appended:
  assumes "\<forall>r \<in> set tbl. row_session r \<noteq> sid"
      and "sorted_wrt (<) (map pair_time (filter (\<lambda>p. pair_session p = sid) ps))"
  shows "rev (select_history sid limit (append_all ps tbl))
           = map row_of (drop (length (filter (\<lambda>p. pair_session p = sid) ps) - limit)
                              (filter (\<lambda>p. pair_session p = sid) ps))"
proof -
  let ?qs = "filter (\<lambda>p. pair_session p = sid) ps"
  from assms(1) have "filter (\<lambda>r. row_session r = sid) tbl = []"
    by (simp add: filter_empty_conv)
  then have rows: "filter (\<lambda>r. row_session r = sid) (append_all ps tbl) = map row_of ?qs"
    by (simp add: append_all_rows filter_rows)
  have times: "map row_created_at (map row_of ?qs) = map pair_time ?qs"
    by (simp add: row_of_def comp_def)
  have "sorted_wrt (<) (map row_created_at (map row_of ?qs))"
    unfolding times by (rule assms(2))
  then have "sort_key (\<lambda>r. - row_created_at r) (map row_of ?qs) = rev (map row_of ?qs)"
    by (rule sort_desc_rev)
  with rows have "select_history sid limit (append_all ps tbl) = take limit (rev (map row_of ?qs))"
    by (simp add: select_history_def)
  then show ?thesis
    by (simp add: take_rev drop_map)
qed

lemma row_turns: "row_messages (row_of p) @
    [\<lparr>role = Some (ascii ''assistant''), content = Some (row_response (row_of p)),
      cache_control = False\<rparr>] = pair_turns p"
  by (simp add: row_of_def pair_turns_def)

lemma load_appended:
  assumes "\<forall>r \<in> set tbl. row_session r \<noteq> sid"
      and "sorted_wrt (<) (map pair_time (filter (\<lambda>p. pair_session p = sid) ps))"
  shows "loadConversationFromDB True sid limit (append_all ps tbl)
           = concat (map pair_turns
               (drop (length (filter (\<lambda>p. pair_session p = sid) ps) - limit)
                     (filter (\<lambda>p. pair_session p = sid) ps)))"
  by (simp add: loadConversationFromDB_def select_appended [OF assms] comp_def row_turns)

text \<open>
  C9, amended. Let turn pairs be appended to the store, every write succeeding, each append
  saving one new therapist turn with its reply, the session having no earlier rows and its
  appends having strictly increasing \<open>created_at\<close>. Then loading the session with limit
  L returns, of its N appended pairs, the most recent min(N, L), each once and in insertion
  order, and nothing else: exactly the N pairs when N <= L (L is 50 unless given).
\<close>

theorem load_returns_latest_pairs:
  assumes "\<forall>r \<in> set tbl. row_session r \<noteq> sid"
      and "sorted_wrt (<) (map pair_time (filter (\<lambda>p. pair_session p = sid) ps))"
  shows "loadConversationFromDB True sid limit (append_all ps tbl)
           = concat (map pair_turns
               (drop (length (filter (\<lambda>p. pair_session p = sid) ps) - limit)
                     (filter (\<lambda>p. pair_session p = sid) ps))) \<and>
         (length (filter (\<lambda>p. pair_session p = sid) ps) \<le> limit \<longrightarrow>
            loadConversationFromDB True sid limit (append_all ps tbl)
              = concat (map pair_turns (filter (\<lambda>p. pair_session p = sid) ps)))"
  using load_appended [OF assms] by simp

theorem load_returns_latest_pairs_witness:
  "row_session other_row \<noteq> ''s'' \<and>
   sorted_wrt (<) (map pair_time (filter (\<lambda>p. pair_session p = ''s'')
      [sample_pair ''s'' 0, sample_pair ''t'' 1, sample_pair ''s'' 2])) \<and>
   loadConversationFromDB True ''s'' 50
      (append_all [sample_pair ''s'' 0, sample_pair ''t'' 1, sample_pair ''s'' 2] [other_row])
     = pair_turns (sample_pair ''s'' 0) @ pair_turns (sample_pair ''s'' 2) \<and>
   loadConversationFromDB True ''s'' 1
      (append_all [sample_pair ''s'' 0, sample_pair ''t'' 1, sample_pair ''s'' 2] [other_row])
     = pair_turns (sample_pair ''s'' 2)"
proof -
  have fresh: "\<forall>r \<in> set [other_row]. row_session r \<noteq> ''s''"
    by (simp add: other_row_def)
  have ordered: "sorted_wrt (<) (map pair_time (filter (\<lambda>p. pair_session p = ''s'')
      [sample_pair ''s'' 0, sample_pair ''t'' 1, sample_pair ''s'' 2]))"
    by (simp add: sample_pair_def)
  from load_returns_latest_pairs [OF fresh ordered, of 50]
       load_returns_latest_pairs [OF fresh ordered, of 1] fresh ordered
  show ?thesis
    by (simp add: sample_pair_def)
qed

text \<open>
  C9, as stated for every N, fails at N = 51 under the default limit of 50: the load returns
  the 100 turns of the last 50 pairs, not the 102 turns of the 51 pairs appended.
\<close>

theorem load_limit_counterexample:
  "length (loadConversationFromDB True ''s'' 50
             (append_all (map (sample_pair ''s'') [0..<51]) [])) = 100 \<and>
   length (concat (map pair_turns (map (sample_pair ''s'') [0..<51]))) = 102"
  by code_simp

text \<open>
  What sendMessage stores is not one new turn per row: it passes the whole transcript of the
  session to saveConversationToDB at every reply. A load after two such saves repeats the
  first exchange.
\<close>

lemma cumulative_save_duplicates:
  "loadConversationFromDB True ''s'' 50
     (saveConversationToDB True 2 ''s''
        [said ''user'' ''u1'', said ''assistant'' ''a1'', said ''user'' ''u2''] (ascii ''a2'')
        (saveConversationToDB True 1 ''s'' [said ''user'' ''u1''] (ascii ''a1'') []))
   = [said ''user'' ''u1'',
      \<lparr>role = Some (ascii ''assistant''), content = Some (ascii ''a1''), cache_control = False\<rparr>,
      said ''user'' ''u1'', said ''assistant'' ''a1'', said ''user'' ''u2'',
      \<lparr>role = Some (ascii ''assistant''), content = Some (ascii ''a2''), cache_control = False\<rparr>]"
  by (simp add: loadConversationFromDB_def select_history_def saveConversationToDB_def)

end
